theory Spec2Isabelle
  imports Main
begin

section \<open>SecureSocket: fingerprint formatting and the trusted-servers lookup\<close>

text \<open>
  The embedding follows \<^verbatim>\<open>src/lib/plugin/ns/SecureSocket.cpp\<close>. A \<^verbatim>\<open>String\<close> is a
  \<^typ>\<open>string\<close> (a list of bytes). An exception of the C++ code is a value \<open>Inl e\<close>.
\<close>

datatype exn = out_of_range

subsection \<open>Helpers of \<^verbatim>\<open>synergy::string\<close>\<close>

text \<open>
  Modelled from the spec: \<^verbatim>\<open>synergy::string::toHex\<close> and
  \<^verbatim>\<open>synergy::string::uppercase\<close> live in \<^verbatim>\<open>lib/base/String.cpp\<close>, which is not
  among the sources. The spec says that formatting "hex-encodes, uppercases, inserts
  \<open>:\<close> between every byte pair": \<open>toHex subject width\<close> writes every byte of
  \<open>subject\<close> as its hexadecimal numeral in lower-case digits, padded on the left with
  \<open>0\<close> to \<open>width\<close> characters, and \<open>uppercase\<close> maps every character through the
  C function \<^verbatim>\<open>toupper\<close> (which changes \<open>a\<close> .. \<open>z\<close> only).
\<close>

definition hex_digit :: "nat \<Rightarrow> char" where
  "hex_digit d = ''0123456789abcdef'' ! (d mod 16)"

definition hex_of_byte :: "nat \<Rightarrow> string" where
  "hex_of_byte v = (if v < 16 then [hex_digit v] else [hex_digit (v div 16), hex_digit v])"

definition toHex :: "string \<Rightarrow> nat \<Rightarrow> string" where
  "toHex subject width =
     concat (map (\<lambda>c. let h = hex_of_byte (of_char c)
                      in replicate (width - length h) (CHR ''0'') @ h) subject)"

definition toupper :: "char \<Rightarrow> char" where
  "toupper c =
     (let v = (of_char c :: nat) in if 97 \<le> v \<and> v \<le> 122 then char_of (v - 32) else c)"

definition uppercase :: "string \<Rightarrow> string" where
  "uppercase subject = map toupper subject"

subsection \<open>\<^verbatim>\<open>SecureSocket::formatFingerprint\<close>\<close>

text \<open>
  \<^verbatim>\<open>std::string::insert(pos, str)\<close> throws \<^verbatim>\<open>std::out_of_range\<close> when \<open>pos\<close> is
  beyond the end of the string.
\<close>

definition String_insert :: "nat \<Rightarrow> string \<Rightarrow> string \<Rightarrow> exn + string" where
  "String_insert pos str s =
     (if pos \<le> length s then Inr (take pos s @ str @ drop pos s) else Inl out_of_range)"

text \<open>
  The loop \<^verbatim>\<open>for (size_t i = 1; i < separators; i++) fingerprint.insert(i * 3 - 1, ":")\<close>.
\<close>

function formatFingerprint_loop :: "nat \<Rightarrow> nat \<Rightarrow> string \<Rightarrow> exn + string" where
  "formatFingerprint_loop i separators fingerprint =
     (if i < separators then
        (case String_insert (i * 3 - 1) '':'' fingerprint of
           Inl e \<Rightarrow> Inl e
         | Inr fingerprint' \<Rightarrow> formatFingerprint_loop (i + 1) separators fingerprint')
      else Inr fingerprint)"
  by pat_completeness auto
termination
  by (relation "measure (\<lambda>(i, separators, fingerprint). separators - i)") auto

declare formatFingerprint_loop.simps [simp del]

definition formatFingerprint :: "string \<Rightarrow> bool \<Rightarrow> bool \<Rightarrow> exn + string" where
  "formatFingerprint fingerprint hex separator =
     (let fingerprint1 = (if hex then toHex fingerprint 2 else fingerprint);
          fingerprint2 = uppercase fingerprint1
      in if separator then
           (let separators = length fingerprint2 div 2
            in formatFingerprint_loop 1 separators fingerprint2)
         else Inr fingerprint2)"

subsection \<open>The trusted-servers file and the lookup loop of \<^verbatim>\<open>verifyCertFingerprint\<close>\<close>

text \<open>
  \<^verbatim>\<open>std::getline(file, fileLine)\<close> on an open stream in a good state, whose unread
  bytes are the argument: it erases \<open>fileLine\<close>, extracts characters up to the next
  \<open>\n\<close>, which it consumes and does not store, and sets \<open>eofbit\<close> when the end of the
  file is reached before a \<open>\n\<close> is found. The result is the line, the unread
  remainder, and \<open>eofbit\<close>. This is the file that is read to its end; the stream
  whose reads may fail follows below.
\<close>

fun getline :: "string \<Rightarrow> string \<times> string \<times> bool" where
  "getline [] = ([], [], True)"
| "getline (c # cs) =
     (if c = CHR 0x0A then ([], cs, False)
      else (case getline cs of (fileLine, rest, eof) \<Rightarrow> (c # fileLine, rest, eof)))"

lemma getline_length:
  "getline s = (fileLine, rest, eof) \<Longrightarrow>
     length rest \<le> length s \<and> (\<not> eof \<longrightarrow> length rest < length s)"
  by (induction s arbitrary: fileLine rest eof) (auto split: if_splits prod.splits)

text \<open>
  The loop \<^verbatim>\<open>while (!file.eof() && file.is_open())\<close> on an open file: \<open>rest\<close> is the
  unread part of the file, \<open>eof\<close> the stream's \<open>eofbit\<close>. The result is \<open>isValid\<close>.
\<close>

function verifyCertFingerprint_loop :: "string \<Rightarrow> string \<Rightarrow> bool \<Rightarrow> bool" where
  "verifyCertFingerprint_loop fingerprint rest eof =
     (if \<not> eof then
        (case getline rest of (fileLine, rest', eof') \<Rightarrow>
           if fileLine \<noteq> [] \<and> fileLine = fingerprint then True
           else verifyCertFingerprint_loop fingerprint rest' eof')
      else False)"
  by pat_completeness auto
termination
  apply (relation "measure (\<lambda>(fingerprint, rest, eof). length rest + (if eof then 0 else 1))")
   apply simp
  apply (auto dest: getline_length [OF sym])
  done

declare verifyCertFingerprint_loop.simps [simp del]

text \<open>
  The file as \<^verbatim>\<open>file.open\<close> finds it: \<open>None\<close> when it cannot be opened (absent or
  unreadable), so that \<^verbatim>\<open>file.is_open()\<close> is false and the loop body never runs;
  \<open>Some contents\<close> otherwise.
\<close>

definition verifyCertFingerprint_lookup :: "string option \<Rightarrow> string \<Rightarrow> bool" where
  "verifyCertFingerprint_lookup file fingerprint =
     (case file of
        None \<Rightarrow> False
      | Some contents \<Rightarrow> verifyCertFingerprint_loop fingerprint contents False)"

subsection \<open>The lookup loop on a stream whose reads may fail\<close>

text \<open>
  \<open>getline\<close> and \<open>verifyCertFingerprint_loop\<close> above are the loop on a file that is
  read to its end. A file can also open and then fail to be read (a directory at the
  path, an I/O error): the stream delivers the bytes \<open>unread\<close> and then, if
  \<open>read_fails\<close>, an error instead of the end of the file. \<^verbatim>\<open>std::getline\<close> on a
  stream that is not good (one of the three bits is set) sets \<open>failbit\<close> and leaves
  \<open>fileLine\<close> as it is; on a good stream it erases \<open>fileLine\<close> and extracts up to the
  next \<open>\n\<close>; when the bytes run out first it sets \<open>eofbit\<close> at the end of the file,
  \<open>badbit\<close> at a read error, and \<open>failbit\<close> as well if it has extracted nothing.
\<close>

record istream =
  unread :: string
  read_fails :: bool
  eofbit :: bool
  failbit :: bool
  badbit :: bool

definition istream_getline :: "istream \<Rightarrow> string \<Rightarrow> string \<times> istream" where
  "istream_getline file fileLine =
     (if eofbit file \<or> failbit file \<or> badbit file then (fileLine, file\<lparr>failbit := True\<rparr>)
      else (case getline (unread file) of (fileLine', rest, ended) \<Rightarrow>
              (fileLine',
               file\<lparr>unread := rest,
                    eofbit := ended \<and> \<not> read_fails file,
                    failbit := ended \<and> fileLine' = [],
                    badbit := ended \<and> read_fails file\<rparr>)))"

text \<open>
  The loop \<^verbatim>\<open>while (!file.eof() && file.is_open())\<close> on an open stream. It need not
  end: \<open>None\<close> is the loop that runs for ever, \<open>Some isValid\<close> the loop that ends.
\<close>

partial_function (option) verifyCertFingerprint_loop_io ::
  "string \<Rightarrow> string \<Rightarrow> istream \<Rightarrow> bool option" where
  "verifyCertFingerprint_loop_io fingerprint fileLine file =
     (if \<not> eofbit file then
        (let r = istream_getline file fileLine
         in if fst r \<noteq> [] \<and> fst r = fingerprint then Some True
            else verifyCertFingerprint_loop_io fingerprint (fst r) (snd r))
      else Some False)"

text \<open>
  The trusted-servers file as \<^verbatim>\<open>file.open\<close> and the reads find it: \<open>open_fails\<close>, or
  \<open>opens contents read_fails\<close>, a file that opens and delivers \<open>contents\<close>, followed by
  the end of the file or, if \<open>read_fails\<close>, by a read error.
\<close>

datatype trust_store = open_fails | opens string bool

definition verifyCertFingerprint_lookup_io :: "trust_store \<Rightarrow> string \<Rightarrow> bool option" where
  "verifyCertFingerprint_lookup_io store fingerprint =
     (case store of
        open_fails \<Rightarrow> Some False
      | opens contents fails \<Rightarrow>
          verifyCertFingerprint_loop_io fingerprint []
            \<lparr>unread = contents, read_fails = fails, eofbit = False, failbit = False,
             badbit = False\<rparr>)"

section \<open>SecureSocket: state, engine and operations\<close>

subsection \<open>Data\<close>

text \<open>
  Handles of the TLS engine (\<^verbatim>\<open>SSL*\<close>, \<^verbatim>\<open>SSL_CTX*\<close>, \<^verbatim>\<open>X509*\<close>) are
  \<open>Some\<close> of an identifier, or \<open>None\<close> for \<^verbatim>\<open>NULL\<close>.
\<close>

type_synonym SSL = nat
type_synonym SSL_CTX = nat
type_synonym X509 = nat

record Ssl =
  Ssl_m_context :: "SSL_CTX option"
  Ssl_m_ssl :: "SSL option"

text \<open>
  Modelled from the spec: \<^verbatim>\<open>SecureSocket.h\<close> is not among the sources. The members
  are those the constructors and methods of \<^verbatim>\<open>SecureSocket.cpp\<close> use: the pointer
  \<open>m_ssl\<close> to the \<open>Ssl\<close> struct (taken as pointing to a live struct, as after
  \<^verbatim>\<open>initSsl\<close>), \<open>m_secureReady\<close>, \<open>m_fatal\<close> and \<open>m_maxRetry\<close>.
  \<^verbatim>\<open>isFatal()\<close>, \<^verbatim>\<open>isFatal(bool)\<close> and \<^verbatim>\<open>maxRetry()\<close> are the accessors of
  \<open>m_fatal\<close> and \<open>m_maxRetry\<close>: the session is "marked Fatal" by the one and the
  "configured max-retry bound" is read by the other. \<^verbatim>\<open>formatFingerprint\<close> is called
  by \<^verbatim>\<open>verifyCertFingerprint\<close> with its default arguments, both \<open>true\<close>: the
  fingerprint is hex-encoded and separated.
\<close>

record SecureSocket =
  m_ssl :: Ssl
  m_secureReady :: bool
  m_fatal :: bool
  m_maxRetry :: int

definition kMaxRetryCount :: int where
  "kMaxRetryCount = 100000"

text \<open>
  The constructors followed by \<^verbatim>\<open>initSsl\<close>, where \<^verbatim>\<open>SSL_CTX_new\<close> returned
  \<open>context\<close>.
\<close>

definition SecureSocket_initSsl :: "SSL_CTX option \<Rightarrow> SecureSocket" where
  "SecureSocket_initSsl context =
     \<lparr>m_ssl = \<lparr>Ssl_m_context = context, Ssl_m_ssl = None\<rparr>,
      m_secureReady = False, m_fatal = False, m_maxRetry = kMaxRetryCount\<rparr>"

definition isFatal :: "SecureSocket \<Rightarrow> bool" where
  "isFatal s = m_fatal s"

definition isFatal_set :: "bool \<Rightarrow> SecureSocket \<Rightarrow> SecureSocket" where
  "isFatal_set b s = s\<lparr>m_fatal := b\<rparr>"

definition maxRetry :: "SecureSocket \<Rightarrow> int" where
  "maxRetry s = m_maxRetry s"

definition isSecureReady :: "SecureSocket \<Rightarrow> bool" where
  "isSecureReady s = m_secureReady s"

text \<open>
  What the code does to the world outside the object, in the order it does it: the calls
  of the TLS engine with their handle arguments, the events sent, the file opened, and
  the messages of \<^verbatim>\<open>showError\<close>. Calls that only feed the \<^verbatim>\<open>LOG\<close> macro
  (\<^verbatim>\<open>SSL_get_current_cipher\<close>, \<^verbatim>\<open>X509_NAME_oneline\<close>) and the other \<^verbatim>\<open>LOG\<close>
  lines are left out: they change no state of the socket.
\<close>

datatype Event = stopRetry | disconnected | inputShutdown

datatype call =
    SSL_new "SSL_CTX option"
  | SSL_set_fd "SSL option" int
  | SSL_connect "SSL option"
  | SSL_accept "SSL option"
  | SSL_read "SSL option" int
  | SSL_write "SSL option" int
  | SSL_get_error "SSL option" int
  | SSL_get_peer_certificate "SSL option"
  | SSL_shutdown "SSL option"
  | SSL_free "SSL option"
  | SSL_CTX_free "SSL_CTX option"
  | X509_digest "X509 option"
  | ERR_peek_error
  | ERR_get_error
  | throwErrorOnSocket
  | LOG_ERR_reason string
  | LOG_ERR_error nat
  | ifstream_open
  | sendEvent Event
  | ARCH_sleep nat
  | TCPSocket_close
  | delete_Ssl

text \<open>
  The answers of the engine and of the file system during one operation of the socket.
  \<open>SSL_op_r\<close> is what \<^verbatim>\<open>SSL_connect\<close>, \<^verbatim>\<open>SSL_accept\<close>, \<^verbatim>\<open>SSL_read\<close> or
  \<^verbatim>\<open>SSL_write\<close> returns, \<open>X509_digest_r\<close> gives \<open>digestResult\<close> and the
  \<open>tempFingerprintLen\<close> bytes of \<open>tempFingerprint\<close> for the certificate passed,
  \<open>trustedServers\<close> is the trusted-servers file as \<^verbatim>\<open>file.open\<close> finds it: one
  that does not open, or one that is read to its end.
\<close>

record engine =
  SSL_new_r :: "SSL option"
  SSL_op_r :: int
  SSL_get_error_r :: int
  ERR_peek_error_r :: nat
  ERR_get_error_r :: nat
  SSL_get_peer_certificate_r :: "X509 option"
  X509_digest_r :: "X509 option \<Rightarrow> int \<times> string"
  trustedServers :: "string option"

text \<open>The error codes of \<^verbatim>\<open>openssl/ssl.h\<close>.\<close>

definition SSL_ERROR_NONE :: int where "SSL_ERROR_NONE = 0"
definition SSL_ERROR_SSL :: int where "SSL_ERROR_SSL = 1"
definition SSL_ERROR_WANT_READ :: int where "SSL_ERROR_WANT_READ = 2"
definition SSL_ERROR_WANT_WRITE :: int where "SSL_ERROR_WANT_WRITE = 3"
definition SSL_ERROR_SYSCALL :: int where "SSL_ERROR_SYSCALL = 5"
definition SSL_ERROR_ZERO_RETURN :: int where "SSL_ERROR_ZERO_RETURN = 6"
definition SSL_ERROR_WANT_CONNECT :: int where "SSL_ERROR_WANT_CONNECT = 7"
definition SSL_ERROR_WANT_ACCEPT :: int where "SSL_ERROR_WANT_ACCEPT = 8"

text \<open>
  The four \<^verbatim>\<open>static int retry\<close> variables, local to \<^verbatim>\<open>secureRead\<close>,
  \<^verbatim>\<open>secureWrite\<close>, \<^verbatim>\<open>secureAccept(int)\<close> and \<^verbatim>\<open>secureConnect(int)\<close>: one
  storage location each for the whole process, zero when the process starts; and the
  trace of calls made so far.
\<close>

record process =
  secureRead_retry :: int
  secureWrite_retry :: int
  secureAccept_retry :: int
  secureConnect_retry :: int
  trace :: "call list"

definition process_start :: process where
  "process_start =
     \<lparr>secureRead_retry = 0, secureWrite_retry = 0, secureAccept_retry = 0,
      secureConnect_retry = 0, trace = []\<rparr>"

subsection \<open>Error reporting and \<^verbatim>\<open>disconnect\<close>\<close>

definition showError :: "string option \<Rightarrow> engine \<Rightarrow> call list \<Rightarrow> call list" where
  "showError reason eng tr =
     (let tr1 = (case reason of None \<Rightarrow> tr | Some r \<Rightarrow> tr @ [LOG_ERR_reason r]);
          e = ERR_get_error_r eng;
          tr2 = tr1 @ [ERR_get_error]
      in if e \<noteq> 0 then tr2 @ [LOG_ERR_error e] else tr2)"

definition disconnect :: "call list \<Rightarrow> call list" where
  "disconnect tr = tr @ [sendEvent stopRetry, sendEvent disconnected, sendEvent inputShutdown]"

subsection \<open>\<^verbatim>\<open>SecureSocket::checkResult\<close>\<close>

text \<open>
  \<^verbatim>\<open>retry++\<close> on a 32-bit \<^verbatim>\<open>int\<close>; the overflow at \<open>2\<^sup>3\<^sup>1 - 1\<close> is written as the
  wrap-around of two's complement.
\<close>

definition retry_incr :: "int \<Rightarrow> int" where
  "retry_incr retry = (if retry = 2147483647 then - 2147483648 else retry + 1)"

text \<open>
  The \<^verbatim>\<open>switch (errorCode)\<close> of \<^verbatim>\<open>checkResult\<close>: the new value of \<open>retry\<close>, the
  trace and the socket.
\<close>

definition checkResult_switch ::
  "engine \<Rightarrow> int \<Rightarrow> int \<Rightarrow> call list \<Rightarrow> SecureSocket \<Rightarrow> int \<times> call list \<times> SecureSocket" where
  "checkResult_switch eng status retry tr s =
     (let errorCode = SSL_get_error_r eng;
          tr1 = tr @ [SSL_get_error (Ssl_m_ssl (m_ssl s)) status]
      in if errorCode = SSL_ERROR_NONE then (0, tr1, s)
         else if errorCode = SSL_ERROR_ZERO_RETURN then (retry, tr1, isFatal_set True s)
         else if errorCode = SSL_ERROR_WANT_READ \<or> errorCode = SSL_ERROR_WANT_WRITE
               \<or> errorCode = SSL_ERROR_WANT_CONNECT \<or> errorCode = SSL_ERROR_WANT_ACCEPT
           then (retry_incr retry, tr1, s)
         else if errorCode = SSL_ERROR_SYSCALL then
           (let tr2 = tr1 @ [ERR_peek_error];
                tr3 = (if ERR_peek_error_r eng = 0 then
                         (if status = 0 then tr2
                          else if status = - 1 then tr2 @ [throwErrorOnSocket]
                          else tr2)
                       else tr2)
            in (retry, tr3, isFatal_set True s))
         else if errorCode = SSL_ERROR_SSL then (retry, tr1, isFatal_set True s)
         else (retry, tr1, isFatal_set True s))"

definition checkResult ::
  "engine \<Rightarrow> int \<Rightarrow> int \<Rightarrow> call list \<Rightarrow> SecureSocket \<Rightarrow> int \<times> call list \<times> SecureSocket" where
  "checkResult eng status retry tr s =
     (case checkResult_switch eng status retry tr s of (retry1, tr1, s1) \<Rightarrow>
        (let s2 = (if retry1 > maxRetry s1 then isFatal_set True s1 else s1)
         in if isFatal s2 then (0, disconnect (showError None eng tr1), s2)
            else (retry1, tr1, s2)))"

subsection \<open>\<^verbatim>\<open>secureRead\<close> and \<^verbatim>\<open>secureWrite\<close>\<close>

text \<open>
  \<open>read\<close> and \<open>wrote\<close> are reference parameters: the functions return their return
  value, the value left in the reference, the process and the socket.
\<close>

definition secureRead ::
  "engine \<Rightarrow> int \<Rightarrow> int \<Rightarrow> process \<Rightarrow> SecureSocket \<Rightarrow> int \<times> int \<times> process \<times> SecureSocket" where
  "secureRead eng size' read p s =
     (if Ssl_m_ssl (m_ssl s) \<noteq> None then
        (let read1 = SSL_op_r eng;
             tr1 = trace p @ [SSL_read (Ssl_m_ssl (m_ssl s)) size']
         in case checkResult eng read1 (secureRead_retry p) tr1 s of (retry, tr2, s') \<Rightarrow>
              (let p' = p\<lparr>secureRead_retry := retry, trace := tr2\<rparr>
               in if retry \<noteq> 0 then (0, read1, p', s')
                  else if isFatal s' then (- 1, read1, p', s')
                  else (read1, read1, p', s')))
      else (read, read, p, s))"

definition secureWrite ::
  "engine \<Rightarrow> int \<Rightarrow> int \<Rightarrow> process \<Rightarrow> SecureSocket \<Rightarrow> int \<times> int \<times> process \<times> SecureSocket" where
  "secureWrite eng size' wrote p s =
     (if Ssl_m_ssl (m_ssl s) \<noteq> None then
        (let wrote1 = SSL_op_r eng;
             tr1 = trace p @ [SSL_write (Ssl_m_ssl (m_ssl s)) size']
         in case checkResult eng wrote1 (secureWrite_retry p) tr1 s of (retry, tr2, s') \<Rightarrow>
              (let p' = p\<lparr>secureWrite_retry := retry, trace := tr2\<rparr>
               in if retry \<noteq> 0 then (0, wrote1, p', s')
                  else if isFatal s' then (- 1, wrote1, p', s')
                  else (wrote1, wrote1, p', s')))
      else (wrote, wrote, p, s))"

subsection \<open>Handshake: \<^verbatim>\<open>createSSL\<close>, \<^verbatim>\<open>secureAccept(int)\<close>, \<^verbatim>\<open>secureConnect(int)\<close>\<close>

definition createSSL :: "engine \<Rightarrow> call list \<Rightarrow> SecureSocket \<Rightarrow> call list \<times> SecureSocket" where
  "createSSL eng tr s =
     (if Ssl_m_ssl (m_ssl s) = None then
        (tr @ [SSL_new (Ssl_m_context (m_ssl s))],
         s\<lparr>m_ssl := (m_ssl s)\<lparr>Ssl_m_ssl := SSL_new_r eng\<rparr>\<rparr>)
      else (tr, s))"

definition secureAccept :: "engine \<Rightarrow> int \<Rightarrow> process \<Rightarrow> SecureSocket \<Rightarrow> int \<times> process \<times> SecureSocket" where
  "secureAccept eng socket p s =
     (case createSSL eng (trace p) s of (tr0, s0) \<Rightarrow>
        (let tr1 = tr0 @ [SSL_set_fd (Ssl_m_ssl (m_ssl s0)) socket, SSL_accept (Ssl_m_ssl (m_ssl s0))];
             r = SSL_op_r eng
         in case checkResult eng r (secureAccept_retry p) tr1 s0 of (retry, tr2, s1) \<Rightarrow>
              (let p1 = p\<lparr>secureAccept_retry := retry, trace := tr2\<rparr>
               in if isFatal s1 then
                    (- 1, p1\<lparr>trace := tr2 @ [ARCH_sleep 1]\<rparr>, s1\<lparr>m_secureReady := False\<rparr>)
                  else if retry = 0 then (1, p1, s1\<lparr>m_secureReady := True\<rparr>)
                  else if retry > 0 then (0, p1, s1\<lparr>m_secureReady := False\<rparr>)
                  else (- 1, p1, s1))))"

definition showCertificate :: "engine \<Rightarrow> call list \<Rightarrow> SecureSocket \<Rightarrow> bool \<times> call list" where
  "showCertificate eng tr s =
     (let cert = SSL_get_peer_certificate_r eng;
          tr1 = tr @ [SSL_get_peer_certificate (Ssl_m_ssl (m_ssl s))]
      in if cert \<noteq> None then (True, tr1)
         else (False, showError (Some ''server has no ssl certificate'') eng tr1))"

definition verifyCertFingerprint ::
  "engine \<Rightarrow> call list \<Rightarrow> SecureSocket \<Rightarrow> exn + (bool \<times> call list)" where
  "verifyCertFingerprint eng tr s =
     (let cert = SSL_get_peer_certificate_r eng;
          tr1 = tr @ [SSL_get_peer_certificate (Ssl_m_ssl (m_ssl s)), X509_digest cert]
      in case X509_digest_r eng cert of (digestResult, tempFingerprint) \<Rightarrow>
           if digestResult \<le> 0 then Inr (False, tr1)
           else (case formatFingerprint tempFingerprint True True of
                   Inl e \<Rightarrow> Inl e
                 | Inr fingerprint \<Rightarrow>
                     Inr (verifyCertFingerprint_lookup (trustedServers eng) fingerprint,
                          tr1 @ [ifstream_open])))"

definition secureConnect ::
  "engine \<Rightarrow> int \<Rightarrow> process \<Rightarrow> SecureSocket \<Rightarrow> exn + (int \<times> process \<times> SecureSocket)" where
  "secureConnect eng socket p s =
     (case createSSL eng (trace p) s of (tr0, s0) \<Rightarrow>
        (let tr1 = tr0 @ [SSL_set_fd (Ssl_m_ssl (m_ssl s0)) socket, SSL_connect (Ssl_m_ssl (m_ssl s0))];
             r = SSL_op_r eng
         in case checkResult eng r (secureConnect_retry p) tr1 s0 of (retry, tr2, s1) \<Rightarrow>
              (let p1 = p\<lparr>secureConnect_retry := retry, trace := tr2\<rparr>
               in if isFatal s1 then Inr (- 1, p1, s1)
                  else if retry > 0 then Inr (0, p1, s1\<lparr>m_secureReady := False\<rparr>)
                  else
                    (let s2 = s1\<lparr>m_secureReady := True\<rparr>
                     in case verifyCertFingerprint eng tr2 s2 of
                          Inl e \<Rightarrow> Inl e
                        | Inr (verified, tr3) \<Rightarrow>
                            if verified then
                              (case showCertificate eng tr3 s2 of (shown, tr4) \<Rightarrow>
                                 if \<not> shown then Inr (- 1, p1\<lparr>trace := disconnect tr4\<rparr>, s2)
                                 else Inr (1, p1\<lparr>trace := tr4\<rparr>, s2))
                            else Inr (- 1, p1\<lparr>trace := disconnect tr3\<rparr>, s2)))))"

text \<open>
  The scheduler calls \<^verbatim>\<open>serviceConnect\<close>, hence \<^verbatim>\<open>secureConnect(int)\<close>, again for
  as long as the job is kept: \<open>n\<close> calls in a row on one socket, with the same answers of
  the engine.
\<close>

fun secureConnect_times ::
  "nat \<Rightarrow> engine \<Rightarrow> int \<Rightarrow> process \<Rightarrow> SecureSocket \<Rightarrow> exn + (process \<times> SecureSocket)" where
  "secureConnect_times 0 eng socket p s = Inr (p, s)"
| "secureConnect_times (Suc n) eng socket p s =
     (case secureConnect eng socket p s of
        Inl e \<Rightarrow> Inl e
      | Inr (status, p', s') \<Rightarrow> secureConnect_times n eng socket p' s')"

subsection \<open>Teardown: the destructor and \<^verbatim>\<open>close\<close>\<close>

text \<open>The two guarded blocks of the destructor that release the handles.\<close>

definition destructor_release :: "Ssl \<Rightarrow> call list \<Rightarrow> Ssl \<times> call list" where
  "destructor_release ssl tr =
     (case (if Ssl_m_ssl ssl \<noteq> None then
              (ssl\<lparr>Ssl_m_ssl := None\<rparr>,
               tr @ [SSL_shutdown (Ssl_m_ssl ssl), SSL_free (Ssl_m_ssl ssl)])
            else (ssl, tr)) of
        (ssl1, tr1) \<Rightarrow>
          if Ssl_m_context ssl1 \<noteq> None then
            (ssl1\<lparr>Ssl_m_context := None\<rparr>, tr1 @ [SSL_CTX_free (Ssl_m_context ssl1)])
          else (ssl1, tr1))"

definition destructor :: "SecureSocket \<Rightarrow> call list \<Rightarrow> SecureSocket \<times> call list" where
  "destructor s tr =
     (let s1 = isFatal_set True s
      in case destructor_release (m_ssl s1) tr of (ssl', tr1) \<Rightarrow>
           (s1\<lparr>m_ssl := ssl'\<rparr>, tr1 @ [ARCH_sleep 1, delete_Ssl]))"

definition close :: "SecureSocket \<Rightarrow> call list \<Rightarrow> SecureSocket \<times> call list" where
  "close s tr =
     (let s1 = isFatal_set True s
      in (s1, tr @ [SSL_shutdown (Ssl_m_ssl (m_ssl s1)), TCPSocket_close]))"

section \<open>Notions of the specification\<close>

text \<open>
  The canonical form of a fingerprint as the specification words it: every byte as two
  upper-case hexadecimal digits, the groups joined by \<open>:\<close>.
\<close>

definition upper_hex_digit :: "nat \<Rightarrow> char" where
  "upper_hex_digit d = ''0123456789ABCDEF'' ! (d mod 16)"

definition hex_pair :: "char \<Rightarrow> string" where
  "hex_pair b = [upper_hex_digit (of_char b div 16), upper_hex_digit (of_char b)]"

fun join_colon :: "string list \<Rightarrow> string" where
  "join_colon [] = []"
| "join_colon [g] = g"
| "join_colon (g # g' # gs) = g @ '':'' @ join_colon (g' # gs)"

definition canonical_fingerprint :: "string \<Rightarrow> string" where
  "canonical_fingerprint digest = join_colon (map hex_pair digest)"

text \<open>
  The lines of a file: the pieces between its \<open>\n\<close> characters (a file that ends in
  \<open>\n\<close> has an empty last line).
\<close>

fun file_lines :: "string \<Rightarrow> string list" where
  "file_lines [] = [[]]"
| "file_lines (c # cs) =
     (if c = CHR 0x0A then [] # file_lines cs
      else (case file_lines cs of [] \<Rightarrow> [[c]] | l # ls \<Rightarrow> (c # l) # ls))"


text \<open>The calls that release a handle, and the calls of the TLS engine.\<close>

fun is_release :: "call \<Rightarrow> bool" where
  "is_release (SSL_free h) = True"
| "is_release (SSL_CTX_free c) = True"
| "is_release _ = False"

fun is_engine_call :: "call \<Rightarrow> bool" where
  "is_engine_call (sendEvent e) = False"
| "is_engine_call (LOG_ERR_reason r) = False"
| "is_engine_call (LOG_ERR_error e) = False"
| "is_engine_call throwErrorOnSocket = False"
| "is_engine_call ifstream_open = False"
| "is_engine_call (ARCH_sleep n) = False"
| "is_engine_call TCPSocket_close = False"
| "is_engine_call delete_Ssl = False"
| "is_engine_call _ = True"

section \<open>Scenarios\<close>

text \<open>
  A digest of 20 bytes, and a trusted-servers file of one line, which is the canonical
  fingerprint of another digest.
\<close>

definition example_digest :: string where
  "example_digest =
     [CHR 0xAB, CHR 0xCD, CHR 0xEF, CHR 0x00, CHR 0x01, CHR 0x23, CHR 0x45, CHR 0x67,
      CHR 0x89, CHR 0x0A, CHR 0xBC, CHR 0xDE, CHR 0xF0, CHR 0x12, CHR 0x34, CHR 0x56,
      CHR 0x78, CHR 0x9A, CHR 0x7F, CHR 0xFF]"

definition other_trustedServers :: string where
  "other_trustedServers =
     ''11:22:33:44:55:66:77:88:99:00:AA:BB:CC:DD:EE:FF:01:02:03:04'' @ [CHR 0x0A]"

definition example_trustedServers :: string where
  "example_trustedServers =
     ''AB:CD:EF:00:01:23:45:67:89:0A:BC:DE:F0:12:34:56:78:9A:7F:FF'' @ [CHR 0x0A]"

text \<open>
  An engine whose operation wants another readiness cycle
  (\<^verbatim>\<open>SSL_ERROR_WANT_READ\<close>); \<^verbatim>\<open>SSL_new\<close> returns \<open>h\<close>.
\<close>

definition engine_want_read :: "SSL option \<Rightarrow> engine" where
  "engine_want_read h =
     \<lparr>SSL_new_r = h, SSL_op_r = - 1, SSL_get_error_r = SSL_ERROR_WANT_READ,
      ERR_peek_error_r = 0, ERR_get_error_r = 0, SSL_get_peer_certificate_r = None,
      X509_digest_r = (\<lambda>cert. (0, [])), trustedServers = None\<rparr>"

text \<open>
  An engine whose operation completes (\<^verbatim>\<open>SSL_ERROR_NONE\<close>); the peer's certificate is
  \<open>cert\<close>, and the digest of a certificate is \<open>example_digest\<close>. For a null certificate
  \<^verbatim>\<open>X509_digest\<close> reports \<open>null_digestResult\<close>. The trusted-servers file is \<open>store\<close>.
\<close>

definition engine_done :: "X509 option \<Rightarrow> int \<Rightarrow> string option \<Rightarrow> engine" where
  "engine_done cert null_digestResult store =
     \<lparr>SSL_new_r = Some 10, SSL_op_r = 1, SSL_get_error_r = SSL_ERROR_NONE,
      ERR_peek_error_r = 0, ERR_get_error_r = 0, SSL_get_peer_certificate_r = cert,
      X509_digest_r = (\<lambda>c. case c of None \<Rightarrow> (null_digestResult, example_digest)
                                | Some x \<Rightarrow> (1, example_digest)),
      trustedServers = store\<rparr>"

text \<open>
  A socket in the middle of its handshake: the connection handle exists, the socket is
  neither ready nor fatal.
\<close>

definition handshaking_socket :: SecureSocket where
  "handshaking_socket =
     \<lparr>m_ssl = \<lparr>Ssl_m_context = Some 1, Ssl_m_ssl = Some 10\<rparr>,
      m_secureReady = False, m_fatal = False, m_maxRetry = kMaxRetryCount\<rparr>"

section \<open>Fingerprint formatting\<close>

lemma toupper_hex_digit_all:
  "\<forall>d \<in> set [0..<16]. toupper (hex_digit d) = ''0123456789ABCDEF'' ! d"
  by code_simp

lemma toupper_hex_digit: "toupper (hex_digit d) = upper_hex_digit d"
proof -
  have "d mod 16 \<in> set [0..<16]" by simp
  with toupper_hex_digit_all
  have "toupper (hex_digit (d mod 16)) = ''0123456789ABCDEF'' ! (d mod 16)"
    by blast
  then show ?thesis by (simp add: hex_digit_def upper_hex_digit_def)
qed

lemma toupper_zero: "toupper (CHR ''0'') = upper_hex_digit 0"
  by code_simp

lemma pad_hex_of_byte:
  "map toupper (let h = hex_of_byte (of_char c)
                in replicate (2 - length h) (CHR ''0'') @ h) = hex_pair c"
proof (cases "(of_char c :: nat) < 16")
  case True
  then have "(of_char c :: nat) div 16 = 0" by simp
  with True show ?thesis
    by (simp add: Let_def hex_of_byte_def hex_pair_def toupper_hex_digit toupper_zero
        numeral_2_eq_2)
next
  case False
  then show ?thesis
    by (simp add: Let_def hex_of_byte_def hex_pair_def toupper_hex_digit)
qed

lemma uppercase_toHex: "uppercase (toHex subject 2) = concat (map hex_pair subject)"
  unfolding uppercase_def toHex_def by (simp add: map_concat comp_def pad_hex_of_byte)

lemma join_colon_snoc:
  "gs \<noteq> [] \<Longrightarrow> join_colon (gs @ [g]) = join_colon gs @ '':'' @ g"
  by (induction gs rule: join_colon.induct) auto

lemma length_join_colon:
  "\<forall>g \<in> set gs. length g = 2 \<Longrightarrow> gs \<noteq> [] \<Longrightarrow> length (join_colon gs) = 3 * length gs - 1"
  by (induction gs rule: join_colon.induct) auto

lemma length_concat_pairs:
  "\<forall>g \<in> set gs. length g = 2 \<Longrightarrow> length (concat gs) = 2 * length gs"
  by (induction gs) auto

text \<open>
  The invariant of the separator loop: before the iteration for \<open>i\<close>, the first \<open>i\<close>
  groups are joined by colons and the other groups follow them unseparated.
\<close>

lemma formatFingerprint_loop_join:
  assumes two: "\<forall>g \<in> set gs. length g = 2" and i: "1 \<le> i" "i \<le> length gs"
  shows "formatFingerprint_loop i (length gs) (join_colon (take i gs) @ concat (drop i gs))
           = Inr (join_colon gs)"
  using i
proof (induction "length gs - i" arbitrary: i)
  case 0
  then have "i = length gs" by simp
  then show ?case by (subst formatFingerprint_loop.simps) simp
next
  case (Suc k)
  then have lt: "i < length gs" by simp
  have tk: "take i gs \<noteq> []" using Suc.prems lt by auto
  have two': "\<forall>g \<in> set (take i gs). length g = 2" using two by (auto dest: in_set_takeD)
  have len: "length (join_colon (take i gs)) = 3 * i - 1"
    using length_join_colon [OF two' tk] lt by simp
  have ins: "String_insert (i * 3 - 1) '':'' (join_colon (take i gs) @ concat (drop i gs))
               = Inr (join_colon (take i gs) @ '':'' @ concat (drop i gs))"
    using len by (simp add: String_insert_def mult.commute)
  have nxt: "join_colon (take i gs) @ '':'' @ concat (drop i gs)
               = join_colon (take (i + 1) gs) @ concat (drop (i + 1) gs)"
    using lt tk by (simp add: take_Suc_conv_app_nth join_colon_snoc Cons_nth_drop_Suc [symmetric])
  have ih: "formatFingerprint_loop (i + 1) (length gs)
              (join_colon (take (i + 1) gs) @ concat (drop (i + 1) gs)) = Inr (join_colon gs)"
    using Suc.hyps(1) [of "i + 1"] Suc.hyps(2) lt by simp
  show ?case
    using lt ins nxt ih by (subst formatFingerprint_loop.simps) simp
qed

lemma formatFingerprint_canonical:
  "formatFingerprint digest True True = Inr (canonical_fingerprint digest)"
proof (cases digest)
  case Nil
  then show ?thesis
    by (simp add: formatFingerprint_def uppercase_toHex canonical_fingerprint_def
        formatFingerprint_loop.simps)
next
  case (Cons b bs)
  define gs where "gs = map hex_pair digest"
  have two: "\<forall>g \<in> set gs. length g = 2" by (auto simp: gs_def hex_pair_def)
  have ne: "gs \<noteq> []" using Cons by (simp add: gs_def)
  have seps: "length (concat gs) div 2 = length gs"
    using length_concat_pairs [OF two] by simp
  have start: "concat gs = join_colon (take 1 gs) @ concat (drop 1 gs)"
    using ne by (cases gs) simp_all
  have "formatFingerprint_loop 1 (length gs) (join_colon (take 1 gs) @ concat (drop 1 gs))
          = Inr (join_colon gs)"
    using ne by (intro formatFingerprint_loop_join [OF two]) (simp_all add: Suc_leI)
  with start seps show ?thesis
    by (simp add: formatFingerprint_def uppercase_toHex canonical_fingerprint_def gs_def Let_def)
qed

lemma upper_hex_digit_range: "upper_hex_digit d \<in> set ''0123456789ABCDEF''"
  unfolding upper_hex_digit_def by (rule nth_mem) simp

lemma hex_pair_range: "set (hex_pair b) \<subseteq> set ''0123456789ABCDEF''"
proof -
  have "set [x, y] \<subseteq> A" if "x \<in> A" "y \<in> A" for x y :: char and A
    using that by simp
  then show ?thesis
    unfolding hex_pair_def using upper_hex_digit_range by blast
qed

text \<open>
  C7. For every raw digest of 20 bytes, \<open>formatFingerprint\<close> (hex-encoding and
  separating) returns the canonical form: the 20 bytes as 20 groups of two upper-case
  hexadecimal digits, joined by \<open>:\<close>, 59 characters in all. It throws nothing.
\<close>

theorem formatFingerprint_20_bytes:
  assumes "length digest = 20"
  shows "formatFingerprint digest True True = Inr (join_colon (map hex_pair digest))
       \<and> length (map hex_pair digest) = 20
       \<and> (\<forall>g \<in> set (map hex_pair digest). length g = 2 \<and> set g \<subseteq> set ''0123456789ABCDEF'')
       \<and> length (join_colon (map hex_pair digest)) = 59"
proof -
  have two: "\<forall>g \<in> set (map hex_pair digest). length g = 2"
    by (auto simp: hex_pair_def)
  have ne: "map hex_pair digest \<noteq> []" using assms by auto
  have "length (join_colon (map hex_pair digest)) = 59"
    using length_join_colon [OF two ne] assms by simp
  moreover have "\<forall>g \<in> set (map hex_pair digest). set g \<subseteq> set ''0123456789ABCDEF''"
    using hex_pair_range by (simp del: set_simps)
  ultimately show ?thesis
    using assms two formatFingerprint_canonical [of digest]
    by (simp add: canonical_fingerprint_def)
qed

theorem formatFingerprint_20_bytes_witness:
  "length [CHR 0xAB, CHR 0xCD, CHR 0xEF, CHR 0x00, CHR 0x01, CHR 0x23, CHR 0x45, CHR 0x67,
           CHR 0x89, CHR 0x0A, CHR 0xBC, CHR 0xDE, CHR 0xF0, CHR 0x12, CHR 0x34, CHR 0x56,
           CHR 0x78, CHR 0x9A, CHR 0x7F, CHR 0xFF] = 20
   \<and> formatFingerprint
        [CHR 0xAB, CHR 0xCD, CHR 0xEF, CHR 0x00, CHR 0x01, CHR 0x23, CHR 0x45, CHR 0x67,
         CHR 0x89, CHR 0x0A, CHR 0xBC, CHR 0xDE, CHR 0xF0, CHR 0x12, CHR 0x34, CHR 0x56,
         CHR 0x78, CHR 0x9A, CHR 0x7F, CHR 0xFF] True True
       = Inr ''AB:CD:EF:00:01:23:45:67:89:0A:BC:DE:F0:12:34:56:78:9A:7F:FF''"
  using formatFingerprint_20_bytes
    [of "[CHR 0xAB, CHR 0xCD, CHR 0xEF, CHR 0x00, CHR 0x01, CHR 0x23, CHR 0x45, CHR 0x67,
          CHR 0x89, CHR 0x0A, CHR 0xBC, CHR 0xDE, CHR 0xF0, CHR 0x12, CHR 0x34, CHR 0x56,
          CHR 0x78, CHR 0x9A, CHR 0x7F, CHR 0xFF]"]
  by (simp add: hex_pair_def upper_hex_digit_def)

section \<open>The trusted-servers lookup\<close>

lemma file_lines_getline:
  "getline s = (fileLine, rest, eof) \<Longrightarrow>
     file_lines s = (if eof then [fileLine] else fileLine # file_lines rest)"
proof (induction s arbitrary: fileLine rest eof)
  case Nil
  then show ?case by simp
next
  case (Cons c cs)
  show ?case
  proof (cases "c = CHR 0x0A")
    case True
    with Cons.prems show ?thesis by simp
  next
    case False
    obtain l r e where g: "getline cs = (l, r, e)" by (cases "getline cs") auto
    from Cons.IH [OF g] have "file_lines cs = (if e then [l] else l # file_lines r)" .
    with False g Cons.prems show ?thesis by auto
  qed
qed

text \<open>
  The loop finds a fingerprint exactly when it is not empty and is one of the lines of
  what is left to read.
\<close>

lemma verifyCertFingerprint_loop_lines:
  "verifyCertFingerprint_loop fingerprint rest eof =
     (\<not> eof \<and> fingerprint \<noteq> [] \<and> fingerprint \<in> set (file_lines rest))"
proof (induction fingerprint rest eof rule: verifyCertFingerprint_loop.induct)
  case (1 fingerprint rest eof)
  show ?case
  proof (cases eof)
    case True
    then show ?thesis by (subst verifyCertFingerprint_loop.simps) simp
  next
    case False
    obtain l r e where g: "getline rest = (l, r, e)" by (cases "getline rest") auto
    note fl = file_lines_getline [OF g]
    show ?thesis
    proof (cases "l \<noteq> [] \<and> l = fingerprint")
      case True
      with False g fl show ?thesis by (subst verifyCertFingerprint_loop.simps) auto
    next
      case nomatch: False
      from "1.IH" [OF False g [symmetric] refl nomatch]
      have ih: "verifyCertFingerprint_loop fingerprint r e =
                  (\<not> e \<and> fingerprint \<noteq> [] \<and> fingerprint \<in> set (file_lines r))" .
      have "verifyCertFingerprint_loop fingerprint rest eof =
              verifyCertFingerprint_loop fingerprint r e"
        using False g nomatch by (subst verifyCertFingerprint_loop.simps) auto
      with ih fl nomatch False show ?thesis by auto
    qed
  qed
qed

lemma verifyCertFingerprint_no_throw:
  "\<exists>verified tr'. verifyCertFingerprint eng tr s = Inr (verified, tr')"
  by (auto simp: verifyCertFingerprint_def Let_def formatFingerprint_canonical split: prod.splits)

text \<open>
  When the trusted-servers file cannot be opened, the lookup answers false for every
  fingerprint, and \<open>verifyCertFingerprint\<close> as a whole returns false without throwing,
  whatever the engine answers.
\<close>

lemma trust_store_cannot_open:
  "verifyCertFingerprint_lookup None fingerprint = False
   \<and> (\<exists>tr'. verifyCertFingerprint (eng\<lparr>trustedServers := None\<rparr>) tr s = Inr (False, tr'))"
  by (simp add: verifyCertFingerprint_lookup_def verifyCertFingerprint_def Let_def
      formatFingerprint_canonical split: prod.splits)

text \<open>
  C9. For every fingerprint that is not the empty string (every canonical fingerprint
  of a digest is such), the lookup in a readable trusted-servers file answers true if
  one of the lines of the file is exactly the fingerprint, and false if every line
  differs from it.
\<close>

theorem trust_store_round_trip:
  assumes "fingerprint \<noteq> []"
  shows "verifyCertFingerprint_lookup (Some contents) fingerprint
           = (fingerprint \<in> set (file_lines contents))"
  using assms by (simp add: verifyCertFingerprint_lookup_def verifyCertFingerprint_loop_lines)

theorem trust_store_round_trip_witness:
  "''AB:CD:EF:00:01:23:45:67:89:0A:BC:DE:F0:12:34:56:78:9A:7F:FF'' \<noteq> []
   \<and> verifyCertFingerprint_lookup
        (Some (''11:22:33:44:55:66:77:88:99:00:AA:BB:CC:DD:EE:FF:01:02:03:04'' @ [CHR 0x0A]
               @ ''AB:CD:EF:00:01:23:45:67:89:0A:BC:DE:F0:12:34:56:78:9A:7F:FF'' @ [CHR 0x0A]))
        ''AB:CD:EF:00:01:23:45:67:89:0A:BC:DE:F0:12:34:56:78:9A:7F:FF''
   \<and> \<not> verifyCertFingerprint_lookup
        (Some (''11:22:33:44:55:66:77:88:99:00:AA:BB:CC:DD:EE:FF:01:02:03:04'' @ [CHR 0x0A]
               @ ''AB:CD:EF:00:01:23:45:67:89:0A:BC:DE:F0:12:34:56:78:9A:7F:FE'' @ [CHR 0x0A]))
        ''AB:CD:EF:00:01:23:45:67:89:0A:BC:DE:F0:12:34:56:78:9A:7F:FF''"
  using trust_store_round_trip
    [of "''AB:CD:EF:00:01:23:45:67:89:0A:BC:DE:F0:12:34:56:78:9A:7F:FF''"
        "''11:22:33:44:55:66:77:88:99:00:AA:BB:CC:DD:EE:FF:01:02:03:04'' @ [CHR 0x0A]
         @ ''AB:CD:EF:00:01:23:45:67:89:0A:BC:DE:F0:12:34:56:78:9A:7F:FF'' @ [CHR 0x0A]"]
    trust_store_round_trip
    [of "''AB:CD:EF:00:01:23:45:67:89:0A:BC:DE:F0:12:34:56:78:9A:7F:FF''"
        "''11:22:33:44:55:66:77:88:99:00:AA:BB:CC:DD:EE:FF:01:02:03:04'' @ [CHR 0x0A]
         @ ''AB:CD:EF:00:01:23:45:67:89:0A:BC:DE:F0:12:34:56:78:9A:7F:FE'' @ [CHR 0x0A]"]
  by simp

text \<open>
  C10. Empty lines never grant trust: the loop steps over an empty line whatever the
  fingerprint is, and the lookup of the empty string answers false for every file,
  blank lines or not.
\<close>

theorem empty_line_never_trusted:
  "verifyCertFingerprint_loop fingerprint (CHR 0x0A # rest) False
     = verifyCertFingerprint_loop fingerprint rest False
   \<and> verifyCertFingerprint_lookup file [] = False"
proof -
  have "verifyCertFingerprint_loop fingerprint (CHR 0x0A # rest) False
          = verifyCertFingerprint_loop fingerprint rest False"
    by (subst verifyCertFingerprint_loop.simps) simp
  moreover have "verifyCertFingerprint_lookup file [] = False"
    by (cases "file") (simp_all add: verifyCertFingerprint_lookup_def verifyCertFingerprint_loop_lines)
  ultimately show ?thesis by simp
qed

section \<open>The lookup on a stream whose reads may fail\<close>

text \<open>
  On a file that is read to its end the loop ends, with the answer of
  \<open>verifyCertFingerprint_loop\<close>.
\<close>

lemma verifyCertFingerprint_loop_io_readable:
  "verifyCertFingerprint_loop_io fingerprint fileLine
     \<lparr>unread = rest, read_fails = False, eofbit = eof, failbit = eof \<and> fl, badbit = False\<rparr>
     = Some (verifyCertFingerprint_loop fingerprint rest eof)"
proof (induction fingerprint rest eof arbitrary: fileLine fl
       rule: verifyCertFingerprint_loop.induct)
  case (1 fingerprint rest eof)
  show ?case
  proof (cases eof)
    case True
    then show ?thesis
      by (subst verifyCertFingerprint_loop_io.simps, subst verifyCertFingerprint_loop.simps) simp
  next
    case False
    obtain l r e where g: "getline rest = (l, r, e)" by (cases "getline rest") auto
    show ?thesis
    proof (cases "l \<noteq> [] \<and> l = fingerprint")
      case True
      with False g show ?thesis
        by (subst verifyCertFingerprint_loop_io.simps, subst verifyCertFingerprint_loop.simps)
           (simp add: istream_getline_def Let_def)
    next
      case nomatch: False
      from "1.IH" [OF False g [symmetric] refl nomatch, of l "l = []"]
      have ih: "verifyCertFingerprint_loop_io fingerprint l
                  \<lparr>unread = r, read_fails = False, eofbit = e, failbit = e \<and> l = [],
                   badbit = False\<rparr>
                = Some (verifyCertFingerprint_loop fingerprint r e)" .
      from False g nomatch ih show ?thesis
        by (subst verifyCertFingerprint_loop_io.simps, subst verifyCertFingerprint_loop.simps)
           (auto simp: istream_getline_def Let_def)
    qed
  qed
qed

text \<open>
  Once a read has failed and the line at hand is not the fingerprint, the loop does not
  end: \<open>eofbit\<close> is never set, and \<open>fileLine\<close> never changes.
\<close>

lemma verifyCertFingerprint_loop_io_stuck:
  assumes "verifyCertFingerprint_loop_io fingerprint fileLine file = Some isValid"
  shows "eofbit file \<or> \<not> (failbit file \<or> badbit file)
         \<or> (fileLine \<noteq> [] \<and> fileLine = fingerprint)"
proof (rule verifyCertFingerprint_loop_io.raw_induct
        [where P = "\<lambda>fp l f y. eofbit f \<or> \<not> (failbit f \<or> badbit f) \<or> (l \<noteq> [] \<and> l = fp)",
         OF _ assms])
  fix loop :: "string \<Rightarrow> string \<Rightarrow> istream \<Rightarrow> bool option"
  fix fp l :: string and f :: istream and y :: bool
  assume IH: "\<And>fp l f y. loop fp l f = Some y \<Longrightarrow>
                eofbit f \<or> \<not> (failbit f \<or> badbit f) \<or> (l \<noteq> [] \<and> l = fp)"
  assume step: "(if \<not> eofbit f then
                   (let r = istream_getline f l
                    in if fst r \<noteq> [] \<and> fst r = fp then Some True
                       else loop fp (fst r) (snd r))
                 else Some False) = Some y"
  show "eofbit f \<or> \<not> (failbit f \<or> badbit f) \<or> (l \<noteq> [] \<and> l = fp)"
  proof (rule ccontr)
    assume "\<not> (eofbit f \<or> \<not> (failbit f \<or> badbit f) \<or> (l \<noteq> [] \<and> l = fp))"
    then have st: "\<not> eofbit f" "failbit f \<or> badbit f" "\<not> (l \<noteq> [] \<and> l = fp)"
      by auto
    then have g: "istream_getline f l = (l, f\<lparr>failbit := True\<rparr>)"
      by (auto simp: istream_getline_def)
    with st step have "loop fp l (f\<lparr>failbit := True\<rparr>) = Some y"
      by (auto simp: Let_def)
    from IH [OF this] st show False by auto
  qed
qed

text \<open>
  On a file whose reads fail after \<open>rest\<close> the loop ends only by finding the
  fingerprint among the lines it could read.
\<close>

lemma verifyCertFingerprint_loop_io_read_fails:
  "verifyCertFingerprint_loop_io fingerprint fileLine
     \<lparr>unread = rest, read_fails = True, eofbit = False, failbit = False, badbit = False\<rparr>
     = (if fingerprint \<noteq> [] \<and> fingerprint \<in> set (file_lines rest) then Some True else None)"
proof (induction rest arbitrary: fileLine rule: length_induct)
  case (1 rest)
  obtain l r e where g: "getline rest = (l, r, e)" by (cases "getline rest") auto
  note fl = file_lines_getline [OF g]
  note len = getline_length [OF g]
  show ?case
  proof (cases "l \<noteq> [] \<and> l = fingerprint")
    case True
    with g fl show ?thesis
      by (subst verifyCertFingerprint_loop_io.simps) (auto simp: istream_getline_def Let_def)
  next
    case nomatch: False
    show ?thesis
    proof (cases e)
      case False
      with len have "length r < length rest" by simp
      with "1.IH" have ih:
        "verifyCertFingerprint_loop_io fingerprint l
           \<lparr>unread = r, read_fails = True, eofbit = False, failbit = False, badbit = False\<rparr>
         = (if fingerprint \<noteq> [] \<and> fingerprint \<in> set (file_lines r) then Some True else None)"
        by blast
      from False g nomatch ih fl show ?thesis
        by (subst verifyCertFingerprint_loop_io.simps) (auto simp: istream_getline_def Let_def)
    next
      case True
      have "verifyCertFingerprint_loop_io fingerprint l
              \<lparr>unread = r, read_fails = True, eofbit = False, failbit = l = [],
               badbit = True\<rparr> = None"
      proof (cases "verifyCertFingerprint_loop_io fingerprint l
              \<lparr>unread = r, read_fails = True, eofbit = False, failbit = l = [],
               badbit = True\<rparr>")
        case None
        then show ?thesis .
      next
        case (Some isValid)
        from verifyCertFingerprint_loop_io_stuck [OF this] nomatch show ?thesis by simp
      qed
      with True g nomatch fl show ?thesis
        by (subst verifyCertFingerprint_loop_io.simps) (auto simp: istream_getline_def Let_def)
    qed
  qed
qed

lemma verifyCertFingerprint_lookup_io_readable:
  "verifyCertFingerprint_lookup_io (opens contents False) fingerprint
     = Some (verifyCertFingerprint_lookup (Some contents) fingerprint)
   \<and> verifyCertFingerprint_lookup_io open_fails fingerprint
     = Some (verifyCertFingerprint_lookup None fingerprint)"
  using verifyCertFingerprint_loop_io_readable [of fingerprint "[]" contents False False]
  by (simp add: verifyCertFingerprint_lookup_io_def verifyCertFingerprint_lookup_def)

text \<open>
  C8. The claim fails on the code. When the trusted-servers file cannot be opened the
  lookup answers false. When it opens and cannot be read (a directory at the path: no
  byte is delivered, every read fails) the loop never ends, for every fingerprint: the
  reads set \<open>badbit\<close> and \<open>failbit\<close>, never \<open>eofbit\<close>, which alone the loop tests.
  More generally, when the reads fail after some contents, the loop ends only if the
  fingerprint is among the lines read before the failure.
\<close>

theorem trust_store_unreadable_never_returns:
  "verifyCertFingerprint_lookup_io open_fails fingerprint = Some False
   \<and> verifyCertFingerprint_lookup_io (opens [] True) fingerprint = None
   \<and> verifyCertFingerprint_lookup_io (opens contents True) fingerprint
     = (if fingerprint \<noteq> [] \<and> fingerprint \<in> set (file_lines contents) then Some True
        else None)"
proof -
  have gen: "verifyCertFingerprint_lookup_io (opens c True) fingerprint
     = (if fingerprint \<noteq> [] \<and> fingerprint \<in> set (file_lines c) then Some True else None)"
    for c
    by (simp add: verifyCertFingerprint_lookup_io_def verifyCertFingerprint_loop_io_read_fails)
  from gen [of "[]"] gen [of contents] show ?thesis
    by (simp add: verifyCertFingerprint_lookup_io_def)
qed

section \<open>The client handshake and the trust decision\<close>

lemma canonical_example_digest:
  "canonical_fingerprint example_digest
     = ''AB:CD:EF:00:01:23:45:67:89:0A:BC:DE:F0:12:34:56:78:9A:7F:FF''"
  by (simp add: canonical_fingerprint_def example_digest_def hex_pair_def upper_hex_digit_def)

lemma lookup_other_trustedServers:
  "verifyCertFingerprint_lookup (Some other_trustedServers)
     ''AB:CD:EF:00:01:23:45:67:89:0A:BC:DE:F0:12:34:56:78:9A:7F:FF'' = False"
  by (simp add: verifyCertFingerprint_lookup_def verifyCertFingerprint_loop_lines
      other_trustedServers_def)

lemma lookup_example_trustedServers:
  "verifyCertFingerprint_lookup (Some example_trustedServers)
     ''AB:CD:EF:00:01:23:45:67:89:0A:BC:DE:F0:12:34:56:78:9A:7F:FF'' = True"
  by (simp add: verifyCertFingerprint_lookup_def verifyCertFingerprint_loop_lines
      example_trustedServers_def)

text \<open>
  C1. The claim fails on the code. The handshake completes, the peer's fingerprint is not
  in the trusted-servers file: \<open>secureConnect\<close> sends the disconnect events and returns
  \<open>-1\<close>, but it has set \<open>m_secureReady\<close> before the verification and does not reset
  it, and it does not mark the socket fatal: \<open>isSecureReady\<close> answers true afterwards.
\<close>

theorem secureConnect_untrusted_peer_stays_ready:
  "secureConnect (engine_done (Some 7) 0 (Some other_trustedServers)) 5 process_start
       (SecureSocket_initSsl (Some 1))
     = Inr (- 1,
            process_start\<lparr>trace :=
              [SSL_new (Some 1), SSL_set_fd (Some 10) 5, SSL_connect (Some 10),
               SSL_get_error (Some 10) 1, SSL_get_peer_certificate (Some 10),
               X509_digest (Some 7), ifstream_open,
               sendEvent stopRetry, sendEvent disconnected, sendEvent inputShutdown]\<rparr>,
            handshaking_socket\<lparr>m_secureReady := True\<rparr>)
   \<and> isSecureReady (handshaking_socket\<lparr>m_secureReady := True\<rparr>)
   \<and> \<not> isFatal (handshaking_socket\<lparr>m_secureReady := True\<rparr>)
   \<and> canonical_fingerprint example_digest \<notin> set (file_lines other_trustedServers)"
proof -
  have "canonical_fingerprint example_digest \<notin> set (file_lines other_trustedServers)"
    by (simp add: canonical_example_digest other_trustedServers_def)
  then show ?thesis
    by (simp add: secureConnect_def createSSL_def checkResult_def checkResult_switch_def
        verifyCertFingerprint_def formatFingerprint_canonical canonical_example_digest
        lookup_other_trustedServers engine_done_def SecureSocket_initSsl_def
        process_start_def handshaking_socket_def disconnect_def isFatal_def
        isSecureReady_def maxRetry_def kMaxRetryCount_def SSL_ERROR_NONE_def Let_def)
qed

section \<open>Classification of results\<close>


lemma checkResult_switch_maxRetry:
  "checkResult_switch eng status retry tr s = (retry1, tr1, s1) \<Longrightarrow>
     m_maxRetry s1 = m_maxRetry s \<and> m_ssl s1 = m_ssl s \<and> m_secureReady s1 = m_secureReady s"
  by (auto simp: checkResult_switch_def Let_def isFatal_set_def split: if_splits)




section \<open>Reading and writing\<close>

lemma checkResult_extends_trace:
  "\<exists>ext. fst (snd (checkResult eng status retry tr s)) = tr @ ext
         \<and> filter is_release ext = []"
  by (simp add: checkResult_def checkResult_switch_def showError_def disconnect_def Let_def)

lemma checkResult_m_ssl:
  "m_ssl (snd (snd (checkResult eng status retry tr s))) = m_ssl s"
  by (simp add: checkResult_def checkResult_switch_def isFatal_set_def Let_def)

text \<open>
  C4, as stated, fails. After one step of the handshake that wants another readiness
  cycle the socket is not ready, and \<open>secureRead\<close> on it calls \<^verbatim>\<open>SSL_read\<close> all the
  same, as \<open>secureWrite\<close> calls \<^verbatim>\<open>SSL_write\<close>.
\<close>

theorem secureRead_not_ready_counterexample:
  "secureConnect (engine_want_read (Some 10)) 5 process_start (SecureSocket_initSsl (Some 1))
     = Inr (0,
            process_start\<lparr>secureConnect_retry := 1,
              trace := [SSL_new (Some 1), SSL_set_fd (Some 10) 5, SSL_connect (Some 10),
                        SSL_get_error (Some 10) (- 1)]\<rparr>,
            handshaking_socket)
   \<and> \<not> isSecureReady handshaking_socket
   \<and> secureRead (engine_done None 0 None) 100 0 process_start handshaking_socket
     = (1, 1, process_start\<lparr>trace := [SSL_read (Some 10) 100, SSL_get_error (Some 10) 1]\<rparr>,
        handshaking_socket)
   \<and> secureWrite (engine_done None 0 None) 100 0 process_start handshaking_socket
     = (1, 1, process_start\<lparr>trace := [SSL_write (Some 10) 100, SSL_get_error (Some 10) 1]\<rparr>,
        handshaking_socket)"
proof -
  have "secureConnect (engine_want_read (Some 10)) 5 process_start (SecureSocket_initSsl (Some 1))
     = Inr (0,
            process_start\<lparr>secureConnect_retry := 1,
              trace := [SSL_new (Some 1), SSL_set_fd (Some 10) 5, SSL_connect (Some 10),
                        SSL_get_error (Some 10) (- 1)]\<rparr>,
            handshaking_socket)"
    by (simp add: secureConnect_def createSSL_def checkResult_def checkResult_switch_def
        engine_want_read_def SecureSocket_initSsl_def process_start_def handshaking_socket_def
        isFatal_def maxRetry_def kMaxRetryCount_def retry_incr_def SSL_ERROR_NONE_def
        SSL_ERROR_ZERO_RETURN_def SSL_ERROR_WANT_READ_def Let_def)
  moreover
  have "secureRead (engine_done None 0 None) 100 0 process_start handshaking_socket
     = (1, 1, process_start\<lparr>trace := [SSL_read (Some 10) 100, SSL_get_error (Some 10) 1]\<rparr>,
        handshaking_socket)"
    by (simp add: secureRead_def checkResult_def checkResult_switch_def engine_done_def
        process_start_def handshaking_socket_def isFatal_def maxRetry_def kMaxRetryCount_def
        SSL_ERROR_NONE_def Let_def)
  moreover
  have "secureWrite (engine_done None 0 None) 100 0 process_start handshaking_socket
     = (1, 1, process_start\<lparr>trace := [SSL_write (Some 10) 100, SSL_get_error (Some 10) 1]\<rparr>,
        handshaking_socket)"
    by (simp add: secureWrite_def checkResult_def checkResult_switch_def engine_done_def
        process_start_def handshaking_socket_def isFatal_def maxRetry_def kMaxRetryCount_def
        SSL_ERROR_NONE_def Let_def)
  ultimately show ?thesis
    by (simp add: isSecureReady_def handshaking_socket_def)
qed

text \<open>
  C4, amended. The gate of \<open>secureRead\<close> and \<open>secureWrite\<close> is the connection handle,
  not readiness: with a null handle they call nothing, change nothing and return the
  caller's count as it was; with a handle they call \<^verbatim>\<open>SSL_read\<close> or \<^verbatim>\<open>SSL_write\<close>
  on it, whatever \<open>isSecureReady\<close> answers.
\<close>

theorem secure_io_gated_on_handle:
  "(Ssl_m_ssl (m_ssl s) = None \<longrightarrow>
      secureRead eng size' read p s = (read, read, p, s)
    \<and> secureWrite eng size' wrote p s = (wrote, wrote, p, s))
   \<and> (Ssl_m_ssl (m_ssl s) \<noteq> None \<longrightarrow>
      SSL_read (Ssl_m_ssl (m_ssl s)) size'
        \<in> set (trace (fst (snd (snd (secureRead eng size' read p s)))))
    \<and> SSL_write (Ssl_m_ssl (m_ssl s)) size'
        \<in> set (trace (fst (snd (snd (secureWrite eng size' wrote p s))))))"
proof -
  have r: "SSL_read (Ssl_m_ssl (m_ssl s)) size'
             \<in> set (trace (fst (snd (snd (secureRead eng size' read p s)))))"
    if "Ssl_m_ssl (m_ssl s) \<noteq> None"
  proof -
    obtain ext where
      "fst (snd (checkResult eng (SSL_op_r eng) (secureRead_retry p)
                  (trace p @ [SSL_read (Ssl_m_ssl (m_ssl s)) size']) s))
         = (trace p @ [SSL_read (Ssl_m_ssl (m_ssl s)) size']) @ ext"
      using checkResult_extends_trace by blast
    with that show ?thesis
      by (auto simp: secureRead_def Let_def split: prod.splits)
  qed
  have w: "SSL_write (Ssl_m_ssl (m_ssl s)) size'
             \<in> set (trace (fst (snd (snd (secureWrite eng size' wrote p s)))))"
    if "Ssl_m_ssl (m_ssl s) \<noteq> None"
  proof -
    obtain ext where
      "fst (snd (checkResult eng (SSL_op_r eng) (secureWrite_retry p)
                  (trace p @ [SSL_write (Ssl_m_ssl (m_ssl s)) size']) s))
         = (trace p @ [SSL_write (Ssl_m_ssl (m_ssl s)) size']) @ ext"
      using checkResult_extends_trace by blast
    with that show ?thesis
      by (auto simp: secureWrite_def Let_def split: prod.splits)
  qed
  from r w show ?thesis
    by (simp add: secureRead_def secureWrite_def)
qed

theorem secure_io_gated_on_handle_witness:
  "Ssl_m_ssl (m_ssl (SecureSocket_initSsl (Some 1))) = None
   \<and> secureRead (engine_done None 0 None) 100 0 process_start (SecureSocket_initSsl (Some 1))
       = (0, 0, process_start, SecureSocket_initSsl (Some 1))
   \<and> secureWrite (engine_done None 0 None) 100 0 process_start (SecureSocket_initSsl (Some 1))
       = (0, 0, process_start, SecureSocket_initSsl (Some 1))
   \<and> Ssl_m_ssl (m_ssl handshaking_socket) \<noteq> None
   \<and> SSL_read (Some 10) 100
       \<in> set (trace (fst (snd (snd
            (secureRead (engine_done None 0 None) 100 0 process_start handshaking_socket)))))
   \<and> SSL_write (Some 10) 100
       \<in> set (trace (fst (snd (snd
            (secureWrite (engine_done None 0 None) 100 0 process_start handshaking_socket)))))"
  using secure_io_gated_on_handle
          [of "SecureSocket_initSsl (Some 1)" "engine_done None 0 None" 100 0 process_start 0]
        secure_io_gated_on_handle
          [of handshaking_socket "engine_done None 0 None" 100 0 process_start 0]
  by (simp add: SecureSocket_initSsl_def handshaking_socket_def)

section \<open>Teardown\<close>

text \<open>
  C5, as stated, fails. \<open>close\<close> on a socket with both handles live marks it fatal and
  calls \<^verbatim>\<open>SSL_shutdown\<close>, but it releases neither handle, and closing again calls
  \<^verbatim>\<open>SSL_shutdown\<close> again: \<open>close\<close> is not a release of the handles and is not
  without effect the second time.
\<close>

theorem close_releases_nothing_counterexample:
  "close handshaking_socket []
     = (handshaking_socket\<lparr>m_fatal := True\<rparr>, [SSL_shutdown (Some 10), TCPSocket_close])
   \<and> Ssl_m_ssl (m_ssl (handshaking_socket\<lparr>m_fatal := True\<rparr>)) = Some 10
   \<and> Ssl_m_context (m_ssl (handshaking_socket\<lparr>m_fatal := True\<rparr>)) = Some 1
   \<and> close (handshaking_socket\<lparr>m_fatal := True\<rparr>) [SSL_shutdown (Some 10), TCPSocket_close]
     = (handshaking_socket\<lparr>m_fatal := True\<rparr>,
        [SSL_shutdown (Some 10), TCPSocket_close, SSL_shutdown (Some 10), TCPSocket_close])"
  by (simp add: close_def isFatal_set_def handshaking_socket_def Let_def)

lemma filter_release_checkResult:
  "filter is_release (fst (snd (checkResult eng status retry tr s))) = filter is_release tr"
  using checkResult_extends_trace [of eng status retry tr s] by auto

lemma createSSL_release:
  "filter is_release (fst (createSSL eng tr s)) = filter is_release tr
   \<and> Ssl_m_context (m_ssl (snd (createSSL eng tr s))) = Ssl_m_context (m_ssl s)"
  by (simp add: createSSL_def)

lemma secureRead_release:
  "filter is_release (trace (fst (snd (snd (secureRead eng size' read p s)))))
     = filter is_release (trace p)"
  using filter_release_checkResult
          [of eng "SSL_op_r eng" "secureRead_retry p"
              "trace p @ [SSL_read (Ssl_m_ssl (m_ssl s)) size']" s]
  by (auto simp: secureRead_def Let_def split: prod.splits)

lemma secureWrite_release:
  "filter is_release (trace (fst (snd (snd (secureWrite eng size' wrote p s)))))
     = filter is_release (trace p)"
  using filter_release_checkResult
          [of eng "SSL_op_r eng" "secureWrite_retry p"
              "trace p @ [SSL_write (Ssl_m_ssl (m_ssl s)) size']" s]
  by (auto simp: secureWrite_def Let_def split: prod.splits)

lemma secureAccept_release:
  "filter is_release (trace (fst (snd (secureAccept eng socket p s))))
     = filter is_release (trace p)"
proof -
  obtain tr0 s0 where c: "createSSL eng (trace p) s = (tr0, s0)"
    by (cases "createSSL eng (trace p) s") auto
  with createSSL_release [of eng "trace p" s]
  have tr0: "filter is_release tr0 = filter is_release (trace p)" by simp
  from filter_release_checkResult
         [of eng "SSL_op_r eng" "secureAccept_retry p"
             "tr0 @ [SSL_set_fd (Ssl_m_ssl (m_ssl s0)) socket, SSL_accept (Ssl_m_ssl (m_ssl s0))]" s0]
       tr0 c
  show ?thesis
    by (auto simp: secureAccept_def Let_def split: prod.splits)
qed

lemma verifyCertFingerprint_release:
  "verifyCertFingerprint eng tr s = Inr (verified, tr') \<Longrightarrow>
     filter is_release tr' = filter is_release tr"
  by (auto simp: verifyCertFingerprint_def Let_def split: prod.splits if_splits sum.splits)

lemma verifyCertFingerprint_not_Inl: "verifyCertFingerprint eng tr s \<noteq> Inl e"
  using verifyCertFingerprint_no_throw [of eng tr s] by auto

lemma secureConnect_not_Inl: "secureConnect eng socket p s \<noteq> Inl e"
  by (auto simp: secureConnect_def Let_def verifyCertFingerprint_not_Inl
      split: prod.splits if_splits sum.splits)

lemma showCertificate_release:
  "filter is_release (snd (showCertificate eng tr s)) = filter is_release tr"
  by (simp add: showCertificate_def showError_def Let_def)

lemma secureConnect_release:
  "secureConnect eng socket p s = Inr (status, p', s') \<Longrightarrow>
     filter is_release (trace p') = filter is_release (trace p)"
proof -
  assume a: "secureConnect eng socket p s = Inr (status, p', s')"
  obtain tr0 s0 where c: "createSSL eng (trace p) s = (tr0, s0)"
    by (cases "createSSL eng (trace p) s") auto
  with createSSL_release [of eng "trace p" s]
  have tr0: "filter is_release tr0 = filter is_release (trace p)" by simp
  define tr1 where
    "tr1 = tr0 @ [SSL_set_fd (Ssl_m_ssl (m_ssl s0)) socket, SSL_connect (Ssl_m_ssl (m_ssl s0))]"
  obtain retry tr2 s1 where
    k: "checkResult eng (SSL_op_r eng) (secureConnect_retry p) tr1 s0 = (retry, tr2, s1)"
    by (cases "checkResult eng (SSL_op_r eng) (secureConnect_retry p) tr1 s0") auto
  from filter_release_checkResult [of eng "SSL_op_r eng" "secureConnect_retry p" tr1 s0] k tr0
  have tr2: "filter is_release tr2 = filter is_release (trace p)"
    by (simp add: tr1_def)
  show ?thesis
  proof (cases "isFatal s1 \<or> retry > 0")
    case True
    with a c k tr2 show ?thesis
      by (auto simp: secureConnect_def Let_def tr1_def split: if_splits)
  next
    case False
    obtain verified tr3 where
      v: "verifyCertFingerprint eng tr2 (s1\<lparr>m_secureReady := True\<rparr>) = Inr (verified, tr3)"
      using verifyCertFingerprint_no_throw by blast
    from verifyCertFingerprint_release [OF v] tr2
    have tr3: "filter is_release tr3 = filter is_release (trace p)" by simp
    obtain shown tr4 where
      sh: "showCertificate eng tr3 (s1\<lparr>m_secureReady := True\<rparr>) = (shown, tr4)"
      by (cases "showCertificate eng tr3 (s1\<lparr>m_secureReady := True\<rparr>)") auto
    from showCertificate_release [of eng tr3 "s1\<lparr>m_secureReady := True\<rparr>"] sh tr3
    have tr4: "filter is_release tr4 = filter is_release (trace p)" by simp
    from False a c k v sh tr3 tr4 show ?thesis
      by (auto simp: secureConnect_def Let_def tr1_def disconnect_def split: if_splits)
  qed
qed

lemma close_eq:
  "close s tr = (s\<lparr>m_fatal := True\<rparr>, tr @ [SSL_shutdown (Ssl_m_ssl (m_ssl s)), TCPSocket_close])"
  by (simp add: close_def isFatal_set_def Let_def)

lemma destructor_eq:
  "destructor s tr =
     (s\<lparr>m_fatal := True, m_ssl := \<lparr>Ssl_m_context = None, Ssl_m_ssl = None\<rparr>\<rparr>,
      tr @ (case Ssl_m_ssl (m_ssl s) of None \<Rightarrow> []
            | Some h \<Rightarrow> [SSL_shutdown (Some h), SSL_free (Some h)])
         @ (case Ssl_m_context (m_ssl s) of None \<Rightarrow> []
            | Some c \<Rightarrow> [SSL_CTX_free (Some c)])
         @ [ARCH_sleep 1, delete_Ssl])"
  by (cases "Ssl_m_ssl (m_ssl s)"; cases "Ssl_m_context (m_ssl s)")
     (simp_all add: destructor_def destructor_release_def isFatal_set_def Let_def)

text \<open>
  C5, amended. The handles are released by the destructor only. The destructor marks the
  socket fatal; if the connection handle is not null it shuts it down, then frees it;
  then, if the context is not null, it frees the context; both are null afterwards, so
  that the two release blocks, run on their own result, call nothing more. On handles
  that are null already the destructor calls nothing of the engine. \<open>close\<close> marks
  the socket fatal and changes nothing else of it; on a socket with a connection handle
  it calls \<^verbatim>\<open>SSL_shutdown\<close> on the handle, then \<^verbatim>\<open>TCPSocket::close\<close>, and nothing
  more. \<open>close\<close>, \<open>secureRead\<close>, \<open>secureWrite\<close>, \<open>secureAccept\<close> and
  \<open>secureConnect\<close> free no handle.
\<close>

theorem destructor_release_ordered:
  assumes "destructor s tr = (s', tr')"
  shows "isFatal s'
       \<and> Ssl_m_ssl (m_ssl s') = None \<and> Ssl_m_context (m_ssl s') = None
       \<and> tr' = tr
            @ (case Ssl_m_ssl (m_ssl s) of None \<Rightarrow> []
               | Some h \<Rightarrow> [SSL_shutdown (Some h), SSL_free (Some h)])
            @ (case Ssl_m_context (m_ssl s) of None \<Rightarrow> []
               | Some c \<Rightarrow> [SSL_CTX_free (Some c)])
            @ [ARCH_sleep 1, delete_Ssl]
       \<and> destructor_release (m_ssl s') tr' = (m_ssl s', tr')
       \<and> fst (close s tr) = s\<lparr>m_fatal := True\<rparr>
       \<and> isFatal (fst (close s tr))
       \<and> (Ssl_m_ssl (m_ssl s) \<noteq> None \<longrightarrow>
            snd (close s tr) = tr @ [SSL_shutdown (Ssl_m_ssl (m_ssl s)), TCPSocket_close])
       \<and> filter is_release (snd (close s tr)) = filter is_release tr
       \<and> m_ssl (fst (close s tr)) = m_ssl s
       \<and> filter is_release (trace (fst (snd (snd (secureRead eng size' read p s)))))
           = filter is_release (trace p)
       \<and> filter is_release (trace (fst (snd (snd (secureWrite eng size' wrote p s)))))
           = filter is_release (trace p)
       \<and> filter is_release (trace (fst (snd (secureAccept eng socket p s))))
           = filter is_release (trace p)
       \<and> (case secureConnect eng socket p s of
            Inl e \<Rightarrow> False
          | Inr (status, p', s'') \<Rightarrow> filter is_release (trace p') = filter is_release (trace p))"
proof -
  from assms have s': "s' = s\<lparr>m_fatal := True, m_ssl := \<lparr>Ssl_m_context = None, Ssl_m_ssl = None\<rparr>\<rparr>"
    and tr': "tr' = tr
            @ (case Ssl_m_ssl (m_ssl s) of None \<Rightarrow> []
               | Some h \<Rightarrow> [SSL_shutdown (Some h), SSL_free (Some h)])
            @ (case Ssl_m_context (m_ssl s) of None \<Rightarrow> []
               | Some c \<Rightarrow> [SSL_CTX_free (Some c)])
            @ [ARCH_sleep 1, delete_Ssl]"
    unfolding destructor_eq by simp_all
  have d1: "isFatal s'" "Ssl_m_ssl (m_ssl s') = None" "Ssl_m_context (m_ssl s') = None"
    unfolding s' by (simp_all add: isFatal_def)
  have i: "destructor_release (m_ssl s') tr' = (m_ssl s', tr')"
    using d1 by (simp add: destructor_release_def)
  have c1: "fst (close s tr) = s\<lparr>m_fatal := True\<rparr>"
    and c2: "isFatal (fst (close s tr))"
    and c3: "Ssl_m_ssl (m_ssl s) \<noteq> None \<longrightarrow>
               snd (close s tr) = tr @ [SSL_shutdown (Ssl_m_ssl (m_ssl s)), TCPSocket_close]"
    and c4: "filter is_release (snd (close s tr)) = filter is_release tr"
    and c5: "m_ssl (fst (close s tr)) = m_ssl s"
    unfolding close_eq by (simp_all add: isFatal_def)
  have sc: "(case secureConnect eng socket p s of
               Inl e \<Rightarrow> False
             | Inr (status, p', s'') \<Rightarrow>
                 filter is_release (trace p') = filter is_release (trace p))"
  proof (cases "secureConnect eng socket p s")
    case (Inl e)
    with secureConnect_not_Inl show ?thesis by blast
  next
    case (Inr x)
    then show ?thesis
      using secureConnect_release [of eng socket p s] by (cases x) auto
  qed
  show ?thesis
    by (intro conjI d1 tr' i c1 c2 c3 c4 c5 sc secureRead_release secureWrite_release
        secureAccept_release)
qed

theorem destructor_release_ordered_witness:
  "destructor handshaking_socket []
     = (handshaking_socket\<lparr>m_ssl := \<lparr>Ssl_m_context = None, Ssl_m_ssl = None\<rparr>, m_fatal := True\<rparr>,
        [SSL_shutdown (Some 10), SSL_free (Some 10), SSL_CTX_free (Some 1),
         ARCH_sleep 1, delete_Ssl])
   \<and> destructor_release \<lparr>Ssl_m_context = None, Ssl_m_ssl = None\<rparr>
        [SSL_shutdown (Some 10), SSL_free (Some 10), SSL_CTX_free (Some 1),
         ARCH_sleep 1, delete_Ssl]
     = (\<lparr>Ssl_m_context = None, Ssl_m_ssl = None\<rparr>,
        [SSL_shutdown (Some 10), SSL_free (Some 10), SSL_CTX_free (Some 1),
         ARCH_sleep 1, delete_Ssl])
   \<and> Ssl_m_ssl (m_ssl handshaking_socket) \<noteq> None
   \<and> snd (close handshaking_socket []) = [SSL_shutdown (Some 10), TCPSocket_close]
   \<and> isFatal (fst (close handshaking_socket []))"
proof -
  have d: "destructor handshaking_socket []
     = (handshaking_socket\<lparr>m_ssl := \<lparr>Ssl_m_context = None, Ssl_m_ssl = None\<rparr>, m_fatal := True\<rparr>,
        [SSL_shutdown (Some 10), SSL_free (Some 10), SSL_CTX_free (Some 1),
         ARCH_sleep 1, delete_Ssl])"
    by (simp add: destructor_def destructor_release_def isFatal_set_def handshaking_socket_def
        Let_def)
  have h: "Ssl_m_ssl (m_ssl handshaking_socket) = Some 10"
    by (simp add: handshaking_socket_def)
  note t = destructor_release_ordered [OF d]
  from t have i: "destructor_release \<lparr>Ssl_m_context = None, Ssl_m_ssl = None\<rparr>
        [SSL_shutdown (Some 10), SSL_free (Some 10), SSL_CTX_free (Some 1),
         ARCH_sleep 1, delete_Ssl]
     = (\<lparr>Ssl_m_context = None, Ssl_m_ssl = None\<rparr>,
        [SSL_shutdown (Some 10), SSL_free (Some 10), SSL_CTX_free (Some 1),
         ARCH_sleep 1, delete_Ssl])"
    by (simp add: handshaking_socket_def)
  from t h have c: "snd (close handshaking_socket []) = [SSL_shutdown (Some 10), TCPSocket_close]"
    and f: "isFatal (fst (close handshaking_socket []))"
    by (simp_all add: isFatal_def)
  from d i h c f show ?thesis by simp
qed

section \<open>The peer certificate\<close>

lemma verifyCertFingerprint_digest_failed:
  "fst (X509_digest_r eng (SSL_get_peer_certificate_r eng)) \<le> 0 \<Longrightarrow>
     verifyCertFingerprint eng tr s
       = Inr (False, tr @ [SSL_get_peer_certificate (Ssl_m_ssl (m_ssl s)),
                           X509_digest (SSL_get_peer_certificate_r eng)])"
  by (auto simp: verifyCertFingerprint_def Let_def split: prod.splits)

text \<open>
  C6. The claim fails on the code. The peer presents no certificate: \<open>showCertificate\<close>
  tests the certificate for null and fails, but \<open>verifyCertFingerprint\<close> does not: it
  calls \<^verbatim>\<open>X509_digest\<close> on the null certificate, and what that call reports decides
  alone whether it fails (a result of 0) or goes on to format and look up whatever is
  in the buffer (a positive result).
\<close>

theorem verifyCertFingerprint_absent_certificate:
  "SSL_get_peer_certificate_r (engine_done None 0 (Some example_trustedServers)) = None
   \<and> verifyCertFingerprint (engine_done None 0 (Some example_trustedServers)) []
        handshaking_socket
     = Inr (False, [SSL_get_peer_certificate (Some 10), X509_digest None])
   \<and> verifyCertFingerprint (engine_done None 1 (Some example_trustedServers)) []
        handshaking_socket
     = Inr (True, [SSL_get_peer_certificate (Some 10), X509_digest None, ifstream_open])
   \<and> showCertificate (engine_done None 0 (Some example_trustedServers)) [] handshaking_socket
     = (False, [SSL_get_peer_certificate (Some 10),
                LOG_ERR_reason ''server has no ssl certificate'', ERR_get_error])"
  by (simp add: verifyCertFingerprint_def showCertificate_def showError_def engine_done_def
      handshaking_socket_def formatFingerprint_canonical canonical_example_digest
      lookup_example_trustedServers Let_def)

section \<open>The retry counters\<close>

lemma secureConnect_want_read:
  assumes "SSL_get_error_r eng = SSL_ERROR_WANT_READ"
      and "\<not> m_fatal s" and "0 \<le> secureConnect_retry p"
      and "secureConnect_retry p < m_maxRetry s" and "m_maxRetry s \<le> 2147483647"
  shows "\<exists>p' s'. secureConnect eng socket p s = Inr (0, p', s')
           \<and> secureConnect_retry p' = secureConnect_retry p + 1
           \<and> \<not> m_fatal s' \<and> m_maxRetry s' = m_maxRetry s"
  using assms
  by (simp add: secureConnect_def createSSL_def checkResult_def checkResult_switch_def
      isFatal_def maxRetry_def retry_incr_def SSL_ERROR_NONE_def SSL_ERROR_ZERO_RETURN_def
      SSL_ERROR_WANT_READ_def Let_def)

lemma secureConnect_times_want_read:
  assumes "SSL_get_error_r eng = SSL_ERROR_WANT_READ" and "m_maxRetry s \<le> 2147483647"
  shows "\<not> m_fatal s \<Longrightarrow> 0 \<le> secureConnect_retry p \<Longrightarrow>
         secureConnect_retry p + int n \<le> m_maxRetry s \<Longrightarrow>
         \<exists>p' s'. secureConnect_times n eng socket p s = Inr (p', s')
           \<and> secureConnect_retry p' = secureConnect_retry p + int n"
  using assms(2)
proof (induction n arbitrary: p s)
  case 0
  then show ?case by simp
next
  case (Suc n)
  from Suc.prems have lt: "secureConnect_retry p < m_maxRetry s" by simp
  from secureConnect_want_read [OF assms(1) Suc.prems(1) Suc.prems(2) lt Suc.prems(4)]
  obtain p1 s1 where
    step: "secureConnect eng socket p s = Inr (0, p1, s1)"
    and r1: "secureConnect_retry p1 = secureConnect_retry p + 1"
    and f1: "\<not> m_fatal s1" and m1: "m_maxRetry s1 = m_maxRetry s"
    by blast
  from r1 Suc.prems have "0 \<le> secureConnect_retry p1"
    and "secureConnect_retry p1 + int n \<le> m_maxRetry s1"
    and "m_maxRetry s1 \<le> 2147483647"
    using m1 by simp_all
  from Suc.IH [OF f1 this] obtain p' s' where
    "secureConnect_times n eng socket p1 s1 = Inr (p', s')"
    "secureConnect_retry p' = secureConnect_retry p1 + int n"
    by blast
  with step r1 show ?case by simp
qed

text \<open>
  C2. The claim fails on the code. Socket \<open>A\<close> makes 100000 steps of its handshake, each
  wanting another readiness cycle. The counter \<open>retry\<close> of \<open>secureConnect\<close> is one
  variable for all sockets: it stands at 100000 when socket \<open>B\<close>, which has done
  nothing yet, makes its first step, and that step exceeds the bound and is fatal. The
  same first step of \<open>B\<close> in a process where \<open>A\<close> has done nothing returns 0 and
  leaves \<open>B\<close> alive.
\<close>

theorem retry_counter_shared_between_sockets:
  "\<not> isl (secureConnect_times 100000 (engine_want_read (Some 10)) 5 process_start
             (SecureSocket_initSsl (Some 1)))
   \<and> secureConnect_retry
        (fst (projr (secureConnect_times 100000 (engine_want_read (Some 10)) 5 process_start
                       (SecureSocket_initSsl (Some 1))))) = 100000
   \<and> \<not> isl (secureConnect (engine_want_read (Some 20)) 6
               (fst (projr (secureConnect_times 100000 (engine_want_read (Some 10)) 5
                              process_start (SecureSocket_initSsl (Some 1)))))
               (SecureSocket_initSsl (Some 2)))
   \<and> fst (projr (secureConnect (engine_want_read (Some 20)) 6
               (fst (projr (secureConnect_times 100000 (engine_want_read (Some 10)) 5
                              process_start (SecureSocket_initSsl (Some 1)))))
               (SecureSocket_initSsl (Some 2)))) = - 1
   \<and> isFatal (snd (snd (projr (secureConnect (engine_want_read (Some 20)) 6
               (fst (projr (secureConnect_times 100000 (engine_want_read (Some 10)) 5
                              process_start (SecureSocket_initSsl (Some 1)))))
               (SecureSocket_initSsl (Some 2))))))
   \<and> secureConnect (engine_want_read (Some 20)) 6 process_start (SecureSocket_initSsl (Some 2))
     = Inr (0,
            process_start\<lparr>secureConnect_retry := 1,
              trace := [SSL_new (Some 2), SSL_set_fd (Some 20) 6, SSL_connect (Some 20),
                        SSL_get_error (Some 20) (- 1)]\<rparr>,
            \<lparr>m_ssl = \<lparr>Ssl_m_context = Some 2, Ssl_m_ssl = Some 20\<rparr>,
             m_secureReady = False, m_fatal = False, m_maxRetry = kMaxRetryCount\<rparr>)"
proof -
  have "\<exists>p' s'. secureConnect_times 100000 (engine_want_read (Some 10)) 5 process_start
                  (SecureSocket_initSsl (Some 1)) = Inr (p', s')
          \<and> secureConnect_retry p' = secureConnect_retry process_start + int 100000"
    by (rule secureConnect_times_want_read)
       (simp_all add: engine_want_read_def SecureSocket_initSsl_def process_start_def
          kMaxRetryCount_def)
  then obtain pA sA where
    A: "secureConnect_times 100000 (engine_want_read (Some 10)) 5 process_start
          (SecureSocket_initSsl (Some 1)) = Inr (pA, sA)"
    and rA: "secureConnect_retry pA = 100000"
    by (auto simp: process_start_def)
  have B: "secureConnect (engine_want_read (Some 20)) 6 pA (SecureSocket_initSsl (Some 2))
             = Inr (- 1,
                    pA\<lparr>secureConnect_retry := 0,
                       trace := trace pA @
                         [SSL_new (Some 2), SSL_set_fd (Some 20) 6, SSL_connect (Some 20),
                          SSL_get_error (Some 20) (- 1), ERR_get_error,
                          sendEvent stopRetry, sendEvent disconnected, sendEvent inputShutdown]\<rparr>,
                    \<lparr>m_ssl = \<lparr>Ssl_m_context = Some 2, Ssl_m_ssl = Some 20\<rparr>,
                     m_secureReady = False, m_fatal = True, m_maxRetry = kMaxRetryCount\<rparr>)"
    using rA
    by (simp add: secureConnect_def createSSL_def checkResult_def checkResult_switch_def
        engine_want_read_def SecureSocket_initSsl_def isFatal_def isFatal_set_def maxRetry_def
        kMaxRetryCount_def retry_incr_def showError_def disconnect_def SSL_ERROR_NONE_def
        SSL_ERROR_ZERO_RETURN_def SSL_ERROR_WANT_READ_def Let_def)
  have B0: "secureConnect (engine_want_read (Some 20)) 6 process_start
              (SecureSocket_initSsl (Some 2))
     = Inr (0,
            process_start\<lparr>secureConnect_retry := 1,
              trace := [SSL_new (Some 2), SSL_set_fd (Some 20) 6, SSL_connect (Some 20),
                        SSL_get_error (Some 20) (- 1)]\<rparr>,
            \<lparr>m_ssl = \<lparr>Ssl_m_context = Some 2, Ssl_m_ssl = Some 20\<rparr>,
             m_secureReady = False, m_fatal = False, m_maxRetry = kMaxRetryCount\<rparr>)"
    by (simp add: secureConnect_def createSSL_def checkResult_def checkResult_switch_def
        engine_want_read_def SecureSocket_initSsl_def process_start_def isFatal_def
        maxRetry_def kMaxRetryCount_def retry_incr_def SSL_ERROR_NONE_def
        SSL_ERROR_ZERO_RETURN_def SSL_ERROR_WANT_READ_def Let_def)
  from A rA B B0 show ?thesis
    by (simp add: isFatal_def)
qed

end
